theory Spec2Isabelle
  imports Complex_Main "HOL-Library.Monad_Syntax" "HOL-Library.Sublist"
    "HOL-Library.Char_ord" "HOL-Library.List_Lexorder" "HOL-Library.Multiset"
begin

section \<open>JSON values and the Python operations the analyzers apply to them\<close>

text \<open>
  The analyzers of \<^verbatim>\<open>biometrics/services\<close> receive parsed JSON: the sample of a request
  and the stored profile of a JSON field. A value is \<^verbatim>\<open>None\<close>, a bool, an int, a float, a
  string, a list or a dict with string keys. A dict is an association list in insertion
  order; lookups read the first entry of a key.

  Python floats are modelled as real numbers: rounding, overflow, infinities and NaN are
  not part of the model. Every handler of the two analyzers is \<^verbatim>\<open>except Exception\<close>, so the
  kind of an exception never matters: a computation that may raise returns an option, and
  \<open>None\<close> means that it raised.
\<close>

datatype json = JNull | JBool bool | JInt int | JFloat real | JStr string
  | JList "json list" | JDict "(string \<times> json) list"

type_synonym feats = "(string \<times> json) list"

text \<open>Truth value of a value in a condition (\<^verbatim>\<open>if x:\<close>, \<^verbatim>\<open>x and y\<close>).\<close>

fun truthy :: "json \<Rightarrow> bool" where
  "truthy JNull = False"
| "truthy (JBool b) = b"
| "truthy (JInt i) = (i \<noteq> 0)"
| "truthy (JFloat x) = (x \<noteq> 0)"
| "truthy (JStr s) = (s \<noteq> [])"
| "truthy (JList xs) = (xs \<noteq> [])"
| "truthy (JDict d) = (d \<noteq> [])"

text \<open>\<^verbatim>\<open>d.get(k, default)\<close>: an AttributeError on anything but a dict.\<close>

fun dict_get :: "json \<Rightarrow> string \<Rightarrow> json \<Rightarrow> json option" where
  "dict_get (JDict d) k dflt = Some (case map_of d k of None \<Rightarrow> dflt | Some v \<Rightarrow> v)"
| "dict_get _ k dflt = None"

text \<open>\<^verbatim>\<open>d[k]\<close> with a string key: KeyError on a dict without the key, TypeError on a
  string or a list (their indices are integers) and on the other values.\<close>

fun py_getitem :: "json \<Rightarrow> string \<Rightarrow> json option" where
  "py_getitem (JDict d) k = map_of d k"
| "py_getitem _ k = None"


text \<open>\<^verbatim>\<open>xs[0]\<close>: IndexError on an empty list or string, KeyError on a dict (its keys are
  strings), TypeError on the rest.\<close>

fun index0 :: "json \<Rightarrow> json option" where
  "index0 (JList (x # xs)) = Some x"
| "index0 (JStr (c # cs)) = Some (JStr [c])"
| "index0 _ = None"

text \<open>\<^verbatim>\<open>for x in v\<close>: a list gives its elements, a dict its keys, a string its characters;
  the other values are not iterable.\<close>

fun py_iter :: "json \<Rightarrow> json list option" where
  "py_iter (JList xs) = Some xs"
| "py_iter (JDict d) = Some (map (\<lambda>kv. JStr (fst kv)) d)"
| "py_iter (JStr s) = Some (map (\<lambda>c. JStr [c]) s)"
| "py_iter _ = None"

fun is_dict :: "json \<Rightarrow> bool" where
  "is_dict (JDict d) = True"
| "is_dict _ = False"

text \<open>The number a value stands for in arithmetic; a bool is an int in Python.\<close>

fun num_of :: "json \<Rightarrow> real option" where
  "num_of (JBool b) = Some (if b then 1 else 0)"
| "num_of (JInt i) = Some (of_int i)"
| "num_of (JFloat x) = Some x"
| "num_of _ = None"

fun int_of :: "json \<Rightarrow> int option" where
  "int_of (JBool b) = Some (if b then 1 else 0)"
| "int_of (JInt i) = Some i"
| "int_of _ = None"

text \<open>\<^verbatim>\<open>a == b\<close>: numbers (bools among them) by value, strings by content, lists
  elementwise, dicts as maps, \<^verbatim>\<open>None\<close> only with itself.\<close>

fun py_eq :: "json \<Rightarrow> json \<Rightarrow> bool"
  and py_eq_list :: "json list \<Rightarrow> json list \<Rightarrow> bool"
  and py_eq_items :: "(string \<times> json) list \<Rightarrow> (string \<times> json) list \<Rightarrow> bool" where
  "py_eq JNull b = (b = JNull)"
| "py_eq (JStr s) b = (b = JStr s)"
| "py_eq (JBool x) b = (num_of b = Some (if x then 1 else 0))"
| "py_eq (JInt i) b = (num_of b = Some (of_int i))"
| "py_eq (JFloat x) b = (num_of b = Some x)"
| "py_eq (JList xs) b = (case b of JList ys \<Rightarrow> py_eq_list xs ys | _ \<Rightarrow> False)"
| "py_eq (JDict d) b =
     (case b of JDict e \<Rightarrow> length d = length e \<and> py_eq_items d e | _ \<Rightarrow> False)"
| "py_eq_list [] ys = (ys = [])"
| "py_eq_list (x # xs) ys =
     (case ys of [] \<Rightarrow> False | y # ys' \<Rightarrow> py_eq x y \<and> py_eq_list xs ys')"
| "py_eq_items [] e = True"
| "py_eq_items ((k, v) # d) e =
     (case map_of e k of None \<Rightarrow> False | Some w \<Rightarrow> py_eq v w \<and> py_eq_items d e)"

text \<open>Lists and dicts have no hash: a set cannot hold them, a dict cannot be asked for
  them.\<close>

fun hashable :: "json \<Rightarrow> bool" where
  "hashable (JList xs) = False"
| "hashable (JDict d) = False"
| "hashable _ = True"

text \<open>\<^verbatim>\<open>v in c\<close>: a list compares its elements with \<^verbatim>\<open>==\<close>; a dict looks the key up (a
  TypeError when \<open>v\<close> has no hash); a string takes only a string, as a substring; the
  other values are not containers.\<close>

fun py_in :: "json \<Rightarrow> json \<Rightarrow> bool option" where
  "py_in v (JList xs) = Some (\<exists>x \<in> set xs. py_eq x v)"
| "py_in v (JDict d) =
     (if hashable v then Some (case v of JStr k \<Rightarrow> k \<in> fst ` set d | _ \<Rightarrow> False) else None)"
| "py_in v (JStr s) = (case v of JStr k \<Rightarrow> Some (sublist k s) | _ \<Rightarrow> None)"
| "py_in v _ = None"

text \<open>\<^verbatim>\<open>abs(stored - current) / max(stored, 1)\<close>: a TypeError unless both are numbers;
  the divisor is at least 1.\<close>

definition rel_diff :: "json \<Rightarrow> json \<Rightarrow> real option" where
  "rel_diff stored current =
     (case (num_of stored, num_of current) of
        (Some s, Some c) \<Rightarrow> Some (\<bar>s - c\<bar> / max s 1)
      | _ \<Rightarrow> None)"

subsection \<open>The statistics module\<close>

text \<open>\<^verbatim>\<open>statistics.mean\<close>: a StatisticsError on no data, a TypeError on data that are not
  numbers (the characters of a string, the keys of a dict) or not iterable. The mean of
  ints is an int when it is whole, a float otherwise.\<close>

fun py_mean :: "json \<Rightarrow> json option" where
  "py_mean (JList xs) =
     (if xs = [] then None
      else (case those (map int_of xs) of
              Some is \<Rightarrow>
                (if int (length is) dvd sum_list is
                 then Some (JInt (sum_list is div int (length is)))
                 else Some (JFloat (of_int (sum_list is) / of_nat (length is))))
            | None \<Rightarrow>
                (case those (map num_of xs) of
                   Some vs \<Rightarrow> Some (JFloat (sum_list vs / of_nat (length vs)))
                 | None \<Rightarrow> None)))"
| "py_mean _ = None"

text \<open>\<^verbatim>\<open>statistics.stdev\<close>, the sample standard deviation, called on two or more numbers.\<close>

definition stdev :: "real list \<Rightarrow> real" where
  "stdev vs =
     (let m = sum_list vs / of_nat (length vs)
      in sqrt (sum_list (map (\<lambda>x. (x - m)\<^sup>2) vs) / of_nat (length vs - 1)))"

fun nums_of :: "json \<Rightarrow> real list option" where
  "nums_of (JList xs) = those (map num_of xs)"
| "nums_of _ = None"

text \<open>The pair of assignments every extractor makes for a channel:
  \<^verbatim>\<open>features[avg] = statistics.mean(values)\<close> and
  \<^verbatim>\<open>features[std] = statistics.stdev(values) if len(values) > 1 else 0\<close>.\<close>

definition mean_std :: "string \<Rightarrow> string \<Rightarrow> json \<Rightarrow> feats option" where
  "mean_std avg std vals =
     do { m \<leftarrow> py_mean vals;
          vs \<leftarrow> nums_of vals;
          Some [(avg, m), (std, if length vs > 1 then JFloat (stdev vs) else JInt 0)] }"

text \<open>\<^verbatim>\<open>[item.get(k, dflt) for item in items if item.get(k)]\<close>.\<close>

fun comp_get :: "string \<Rightarrow> json \<Rightarrow> json list \<Rightarrow> json list option" where
  "comp_get k dflt [] = Some []"
| "comp_get k dflt (item # rest) =
     do { c \<leftarrow> dict_get item k JNull;
          if truthy c
          then do { v \<leftarrow> dict_get item k dflt;
                    vs \<leftarrow> comp_get k dflt rest;
                    Some (v # vs) }
          else comp_get k dflt rest }"

text \<open>\<^verbatim>\<open>len(v)\<close>: a TypeError on \<^verbatim>\<open>None\<close>, a bool or a number.\<close>

fun py_len :: "json \<Rightarrow> nat option" where
  "py_len (JList xs) = Some (length xs)"
| "py_len (JDict d) = Some (length d)"
| "py_len (JStr s) = Some (length s)"
| "py_len _ = None"

text \<open>\<^verbatim>\<open>a - b\<close>: a TypeError unless both are numbers.\<close>

definition py_sub :: "json \<Rightarrow> json \<Rightarrow> real option" where
  "py_sub a b = (case (num_of a, num_of b) of (Some x, Some y) \<Rightarrow> Some (x - y) | _ \<Rightarrow> None)"

subsection \<open>Sets\<close>

text \<open>
  A Python set is modelled by the list of its elements, none \<^verbatim>\<open>==\<close> to another:
  \<^verbatim>\<open>s.add(x)\<close> leaves the set as it is when it holds an element equal to \<open>x\<close>.
  \<^verbatim>\<open>set(xs)\<close> adds the elements in turn and raises a TypeError on one without a hash.
  The order in which CPython iterates a set is not specified; where the source iterates
  one (\<^verbatim>\<open>list(s)\<close>, \<^verbatim>\<open>max(s, key=...)\<close>), the model takes that order as a parameter
  \<open>set_order\<close>, applied to the elements.
\<close>

definition py_member :: "json \<Rightarrow> json list \<Rightarrow> bool" where
  "py_member x s = (\<exists>y \<in> set s. py_eq y x)"

definition py_add :: "json list \<Rightarrow> json \<Rightarrow> json list" where
  "py_add s x = (if py_member x s then s else s @ [x])"

definition py_set :: "json list \<Rightarrow> json list option" where
  "py_set xs = (if list_all hashable xs then Some (foldl py_add [] xs) else None)"

text \<open>\<^verbatim>\<open>xs.count(x)\<close>, and \<^verbatim>\<open>max(ys, key=f)\<close> on a non-empty \<open>ys\<close>: the first element
  whose key no other exceeds.\<close>

definition py_count :: "json list \<Rightarrow> json \<Rightarrow> nat" where
  "py_count xs x = length (filter (\<lambda>y. py_eq y x) xs)"

fun py_max_key :: "(json \<Rightarrow> nat) \<Rightarrow> json list \<Rightarrow> json option" where
  "py_max_key f [] = None"
| "py_max_key f (y # ys) = Some (foldl (\<lambda>best z. if f z > f best then z else best) y ys)"

section \<open>The mobile analyzer: \<^verbatim>\<open>BehavioralAnalyzer\<close>\<close>

text \<open>
  A method named \<^verbatim>\<open>_f\<close> in the source is \<open>f\<close> here. An extractor fills \<^verbatim>\<open>features\<close> inside
  a \<^verbatim>\<open>try\<close> and returns what it has when an exception stops it: \<open>f_try\<close> gives the
  features and whether an exception was caught, \<open>f\<close> the features alone.
\<close>

definition hold_values_of :: "json \<Rightarrow> json option" where
  "hold_values_of hold_times =
     do { h0 \<leftarrow> index0 hold_times;
          if is_dict h0
          then do { items \<leftarrow> py_iter hold_times;
                    vs \<leftarrow> comp_get ''hold_time'' (JInt 0) items;
                    Some (JList vs) }
          else Some hold_times }"

definition hold_part :: "json \<Rightarrow> feats option" where
  "hold_part hold_times =
     (if truthy hold_times
      then do { hold_values \<leftarrow> hold_values_of hold_times;
                if truthy hold_values
                then mean_std ''avg_hold_time'' ''hold_time_std'' hold_values
                else Some [] }
      else Some [])"

definition flight_part :: "json \<Rightarrow> feats option" where
  "flight_part flight_times =
     (if truthy flight_times
      then mean_std ''avg_flight_time'' ''flight_time_std'' flight_times
      else Some [])"

definition extract_typing_features_try :: "json \<Rightarrow> feats \<times> bool" where
  "extract_typing_features_try typing_pattern =
     (case dict_get typing_pattern ''key_hold_times'' (JList []) of
        None \<Rightarrow> ([], True)
      | Some hold_times \<Rightarrow>
     (case dict_get typing_pattern ''flight_times'' (JList []) of
        None \<Rightarrow> ([], True)
      | Some flight_times \<Rightarrow>
     (case hold_part hold_times of
        None \<Rightarrow> ([], True)
      | Some f1 \<Rightarrow>
     (case flight_part flight_times of
        None \<Rightarrow> (f1, True)
      | Some f2 \<Rightarrow> (f1 @ f2, False)))))"

definition extract_typing_features :: "json \<Rightarrow> feats" where
  "extract_typing_features typing_pattern = fst (extract_typing_features_try typing_pattern)"

definition swipe_part :: "json \<Rightarrow> feats option" where
  "swipe_part swipe_data =
     (if truthy swipe_data then mean_std ''avg_swipe_speed'' ''swipe_speed_std'' swipe_data
      else Some [])"

definition pressure_part :: "json \<Rightarrow> feats option" where
  "pressure_part touch_data =
     (if truthy touch_data
      then mean_std ''avg_touch_pressure'' ''touch_pressure_std'' touch_data
      else Some [])"

definition extract_touch_features_try :: "json \<Rightarrow> feats \<times> bool" where
  "extract_touch_features_try touch_patterns =
     (case dict_get touch_patterns ''swipe_speeds'' (JList []) of
        None \<Rightarrow> ([], True)
      | Some swipe_data \<Rightarrow>
     (case dict_get touch_patterns ''touch_pressures'' (JList []) of
        None \<Rightarrow> ([], True)
      | Some touch_data \<Rightarrow>
     (case swipe_part swipe_data of
        None \<Rightarrow> ([], True)
      | Some f1 \<Rightarrow>
     (case pressure_part touch_data of
        None \<Rightarrow> (f1, True)
      | Some f2 \<Rightarrow> (f1 @ f2, False)))))"

definition extract_touch_features :: "json \<Rightarrow> feats" where
  "extract_touch_features touch_patterns = fst (extract_touch_features_try touch_patterns)"

text \<open>The matchers: the body of each \<^verbatim>\<open>try\<close> as an option, and the method, which returns
  0.0 from its handler.\<close>

definition verify_typing_pattern_body :: "json \<Rightarrow> json \<Rightarrow> real option" where
  "verify_typing_pattern_body current_typing stored_profile =
     (let current_features = extract_typing_features current_typing
      in case map_of current_features ''avg_hold_time'' of
           None \<Rightarrow> Some (min 0 1)
         | Some current_avg \<Rightarrow>
             do { th \<leftarrow> dict_get stored_profile ''typical_hold_times'' JNull;
                  if truthy th
                  then do { stored_avg \<leftarrow> dict_get stored_profile ''avg_typing_speed'' (JInt 0);
                            difference \<leftarrow> rel_diff stored_avg current_avg;
                            Some (min (if difference \<le> 0.2 then 0.7
                                       else if difference \<le> 0.4 then 0.3 else 0) 1) }
                  else Some (min 0 1) })"

definition verify_typing_pattern :: "json \<Rightarrow> json \<Rightarrow> real" where
  "verify_typing_pattern current_typing stored_profile =
     (case verify_typing_pattern_body current_typing stored_profile of
        None \<Rightarrow> 0 | Some s \<Rightarrow> s)"

text \<open>One comparison of \<^verbatim>\<open>_verify_touch_patterns\<close>: the feature of the sample against the
  profile's entry, worth \<open>pts\<close> when the relative difference is within \<open>tol\<close>.\<close>

definition touch_term :: "feats \<Rightarrow> string \<Rightarrow> json \<Rightarrow> string \<Rightarrow> real \<Rightarrow> real \<Rightarrow> real option" where
  "touch_term current_features fkey stored_profile pkey tol pts =
     (case map_of current_features fkey of
        None \<Rightarrow> Some 0
      | Some current \<Rightarrow>
          do { g \<leftarrow> dict_get stored_profile pkey JNull;
               if truthy g
               then do { stored \<leftarrow> py_getitem stored_profile pkey;
                         difference \<leftarrow> rel_diff stored current;
                         Some (if difference \<le> tol then pts else 0) }
               else Some 0 })"

definition verify_touch_patterns_body :: "json \<Rightarrow> json \<Rightarrow> real option" where
  "verify_touch_patterns_body current_touch stored_profile =
     (let current_features = extract_touch_features current_touch
      in do { a \<leftarrow> touch_term current_features ''avg_swipe_speed''
                     stored_profile ''avg_swipe_speed'' 0.3 0.5;
              b \<leftarrow> touch_term current_features ''avg_touch_pressure''
                     stored_profile ''typical_touch_pressure'' 0.25 0.5;
              Some (min (a + b) 1) })"

definition verify_touch_patterns :: "json \<Rightarrow> json \<Rightarrow> real" where
  "verify_touch_patterns current_touch stored_profile =
     (case verify_touch_patterns_body current_touch stored_profile of
        None \<Rightarrow> 0 | Some s \<Rightarrow> s)"

definition verify_device_body :: "json \<Rightarrow> json \<Rightarrow> real option" where
  "verify_device_body current_device stored_profile =
     do { current_device_id \<leftarrow> dict_get current_device ''device_id'' JNull;
          trusted_devices \<leftarrow> dict_get stored_profile ''trusted_devices'' (JList []);
          known \<leftarrow> (if truthy current_device_id then py_in current_device_id trusted_devices
                    else Some False);
          if known then Some 1
          else do { current_os \<leftarrow> dict_get current_device ''os'' JNull;
                    dc \<leftarrow> dict_get stored_profile ''device_characteristics'' (JDict []);
                    stored_typical_os \<leftarrow> dict_get dc ''typical_os'' JNull;
                    Some (if truthy current_os \<and> truthy stored_typical_os
                             \<and> py_eq current_os stored_typical_os
                          then 0.5 else 0) } }"

definition verify_device :: "json \<Rightarrow> json \<Rightarrow> real" where
  "verify_device current_device stored_profile =
     (case verify_device_body current_device stored_profile of None \<Rightarrow> 0 | Some s \<Rightarrow> s)"

text \<open>\<^verbatim>\<open>_detect_anomalies\<close>: two rules inside one \<^verbatim>\<open>try\<close>; an exception in the second keeps
  the tag of the first.\<close>

definition typing_anomaly :: "json \<Rightarrow> json \<Rightarrow> string list option" where
  "typing_anomaly current_data stored_profile =
     do { tp \<leftarrow> dict_get current_data ''typing_pattern'' (JDict []);
          case map_of (extract_typing_features tp) ''avg_hold_time'' of
            None \<Rightarrow> Some []
          | Some current_speed \<Rightarrow>
              do { g \<leftarrow> dict_get stored_profile ''avg_typing_speed'' JNull;
                   if truthy g
                   then do { stored_speed \<leftarrow> py_getitem stored_profile ''avg_typing_speed'';
                             difference \<leftarrow> rel_diff stored_speed current_speed;
                             Some (if difference > 0.5 then [''typing_speed_anomaly''] else []) }
                   else Some [] } }"

definition device_anomaly :: "json \<Rightarrow> json \<Rightarrow> string list option" where
  "device_anomaly current_data stored_profile =
     do { current_device \<leftarrow> dict_get current_data ''device_characteristics'' (JDict []);
          trusted_devices \<leftarrow> dict_get stored_profile ''trusted_devices'' (JList []);
          current_device_id \<leftarrow> dict_get current_device ''device_id'' JNull;
          if truthy current_device_id
          then do { known \<leftarrow> py_in current_device_id trusted_devices;
                    Some (if \<not> known then [''unfamiliar_device''] else []) }
          else Some [] }"

definition detect_anomalies :: "json \<Rightarrow> json \<Rightarrow> string list" where
  "detect_anomalies current_data stored_profile =
     (case typing_anomaly current_data stored_profile of
        None \<Rightarrow> []
      | Some a1 \<Rightarrow>
          (case device_anomaly current_data stored_profile of
             None \<Rightarrow> a1
           | Some a2 \<Rightarrow> a1 @ a2))"

text \<open>\<^verbatim>\<open>verify_behavioral_match\<close>. \<^verbatim>\<open>current_data['typing_pattern']\<close> is read only after
  \<^verbatim>\<open>current_data.get('typing_pattern')\<close> was truthy, so it is that value.\<close>

definition confidence_factors :: "json \<Rightarrow> json \<Rightarrow> real list option" where
  "confidence_factors current_data stored_profile =
     do { tp \<leftarrow> dict_get current_data ''typing_pattern'' JNull;
          f1 \<leftarrow> (if truthy tp
                 then do { th \<leftarrow> dict_get stored_profile ''typical_hold_times'' JNull;
                           Some (if truthy th
                                 then [verify_typing_pattern tp stored_profile * 0.5] else []) }
                 else Some []);
          tc \<leftarrow> dict_get current_data ''touch_patterns'' JNull;
          f2 \<leftarrow> (if truthy tc
                 then do { sw \<leftarrow> dict_get stored_profile ''avg_swipe_speed'' JNull;
                           Some (if truthy sw
                                 then [verify_touch_patterns tc stored_profile * 0.3] else []) }
                 else Some []);
          dc \<leftarrow> dict_get current_data ''device_characteristics'' JNull;
          Some (f1 @ f2 @ (if truthy dc then [verify_device dc stored_profile * 0.2] else [])) }"

text \<open>The last lines of both verify methods, from the list of weighted channel scores
  on: they differ in the match threshold and in the penalty per anomaly tag.\<close>

definition score :: "real \<Rightarrow> real \<Rightarrow> real list \<Rightarrow> string list \<Rightarrow> bool \<times> real \<times> real" where
  "score threshold penalty factors anomalies =
     (let overall_confidence = (if factors \<noteq> [] then sum_list factors else 0);
          risk_score = max 0 (1 - overall_confidence);
          risk_score = (if anomalies \<noteq> []
                        then min 1 (risk_score + real (length anomalies) * penalty)
                        else risk_score)
      in (overall_confidence \<ge> threshold, overall_confidence, risk_score))"

definition verify_behavioral_match_body :: "json \<Rightarrow> json \<Rightarrow> (bool \<times> real \<times> real) option" where
  "verify_behavioral_match_body current_data stored_profile =
     do { factors \<leftarrow> confidence_factors current_data stored_profile;
          Some (score 0.7 0.2 factors (detect_anomalies current_data stored_profile)) }"

definition verify_behavioral_match :: "json \<Rightarrow> json \<Rightarrow> bool \<times> real \<times> real" where
  "verify_behavioral_match current_data stored_profile =
     (case verify_behavioral_match_body current_data stored_profile of
        None \<Rightarrow> (False, 0, 1)
      | Some r \<Rightarrow> r)"

section \<open>The web analyzer: \<^verbatim>\<open>WebBehaviorAnalyzer\<close>\<close>

text \<open>\<^verbatim>\<open>all(key in m for key in ['x', 'y'])\<close>.\<close>

definition has_xy :: "json \<Rightarrow> bool option" where
  "has_xy m = do { a \<leftarrow> py_in (JStr ''x'') m; if a then py_in (JStr ''y'') m else Some False }"

text \<open>The loop over \<^verbatim>\<open>range(1, len(mouse_movements))\<close>: each event with its predecessor.\<close>

fun movement_angles :: "json list \<Rightarrow> real list option" where
  "movement_angles (prev # cur # rest) =
     do { c1 \<leftarrow> has_xy cur;
          c2 \<leftarrow> (if c1 then has_xy prev else Some False);
          a \<leftarrow> (if c2
                then do { xi \<leftarrow> py_getitem cur ''x'';
                          xp \<leftarrow> py_getitem prev ''x'';
                          dx \<leftarrow> py_sub xi xp;
                          yi \<leftarrow> py_getitem cur ''y'';
                          yp \<leftarrow> py_getitem prev ''y'';
                          dy \<leftarrow> py_sub yi yp;
                          Some (if dx \<noteq> 0 then [\<bar>dy / dx\<bar>] else []) }
                else Some []);
          as \<leftarrow> movement_angles (cur # rest);
          Some (a @ as) }"
| "movement_angles _ = Some []"

definition mouse_speed_part :: "json \<Rightarrow> feats option" where
  "mouse_speed_part mouse_movements =
     do { items \<leftarrow> py_iter mouse_movements;
          speeds \<leftarrow> comp_get ''speed'' (JInt 0) items;
          if speeds \<noteq> [] then mean_std ''avg_mouse_speed'' ''mouse_speed_std'' (JList speeds)
          else Some [] }"

definition mouse_angle_part :: "json \<Rightarrow> feats option" where
  "mouse_angle_part mouse_movements =
     do { items \<leftarrow> py_iter mouse_movements;
          angles \<leftarrow> movement_angles items;
          if angles \<noteq> []
          then do { m \<leftarrow> py_mean (JList (map JFloat angles));
                    Some [(''avg_movement_angle'', m)] }
          else Some [] }"

definition extract_mouse_features_try :: "json \<Rightarrow> feats \<times> bool" where
  "extract_mouse_features_try mouse_movements =
     (if \<not> truthy mouse_movements then ([], False)
      else (case mouse_speed_part mouse_movements of
              None \<Rightarrow> ([], True)
            | Some f1 \<Rightarrow>
                (case mouse_angle_part mouse_movements of
                   None \<Rightarrow> (f1, True)
                 | Some f2 \<Rightarrow> (f1 @ f2, False))))"

definition extract_mouse_features :: "json \<Rightarrow> feats" where
  "extract_mouse_features mouse_movements = fst (extract_mouse_features_try mouse_movements)"

definition scroll_speed_part :: "json \<Rightarrow> feats option" where
  "scroll_speed_part scroll_events =
     do { items \<leftarrow> py_iter scroll_events;
          speeds \<leftarrow> comp_get ''speed'' (JInt 0) items;
          if speeds \<noteq> [] then mean_std ''avg_scroll_speed'' ''scroll_speed_std'' (JList speeds)
          else Some [] }"

definition scroll_direction_part :: "(json list \<Rightarrow> json list) \<Rightarrow> json \<Rightarrow> feats option" where
  "scroll_direction_part set_order scroll_events =
     do { items \<leftarrow> py_iter scroll_events;
          directions \<leftarrow> comp_get ''direction'' (JStr []) items;
          if directions \<noteq> []
          then do { s \<leftarrow> py_set directions;
                    d \<leftarrow> py_max_key (py_count directions) (set_order s);
                    Some [(''preferred_direction'', d)] }
          else Some [] }"

definition extract_scroll_features_try ::
  "(json list \<Rightarrow> json list) \<Rightarrow> json \<Rightarrow> feats \<times> bool" where
  "extract_scroll_features_try set_order scroll_events =
     (if \<not> truthy scroll_events then ([], False)
      else (case scroll_speed_part scroll_events of
              None \<Rightarrow> ([], True)
            | Some f1 \<Rightarrow>
                (case scroll_direction_part set_order scroll_events of
                   None \<Rightarrow> (f1, True)
                 | Some f2 \<Rightarrow> (f1 @ f2, False))))"

definition extract_scroll_features :: "(json list \<Rightarrow> json list) \<Rightarrow> json \<Rightarrow> feats" where
  "extract_scroll_features set_order scroll_events =
     fst (extract_scroll_features_try set_order scroll_events)"

definition keystroke_lists :: "json \<Rightarrow> (json list \<times> json list) option" where
  "keystroke_lists keystroke_timing =
     do { items \<leftarrow> py_iter keystroke_timing;
          hold_times \<leftarrow> comp_get ''hold_time'' (JInt 0) items;
          flight_times \<leftarrow> comp_get ''next_key_delay'' (JInt 0) items;
          Some (hold_times, flight_times) }"

definition list_stats :: "string \<Rightarrow> string \<Rightarrow> json list \<Rightarrow> feats option" where
  "list_stats avg std vals = (if vals \<noteq> [] then mean_std avg std (JList vals) else Some [])"

definition extract_web_typing_features_try :: "json \<Rightarrow> feats \<times> bool" where
  "extract_web_typing_features_try keystroke_timing =
     (if \<not> truthy keystroke_timing then ([], False)
      else (case keystroke_lists keystroke_timing of
              None \<Rightarrow> ([], True)
            | Some (hold_times, flight_times) \<Rightarrow>
                (case list_stats ''avg_hold_time'' ''hold_time_std'' hold_times of
                   None \<Rightarrow> ([], True)
                 | Some f1 \<Rightarrow>
                     (case list_stats ''avg_flight_time'' ''flight_time_std'' flight_times of
                        None \<Rightarrow> (f1, True)
                      | Some f2 \<Rightarrow> (f1 @ f2, False)))))"

definition extract_web_typing_features :: "json \<Rightarrow> feats" where
  "extract_web_typing_features keystroke_timing =
     fst (extract_web_typing_features_try keystroke_timing)"

definition fingerprint_fields :: "json \<Rightarrow> feats option" where
  "fingerprint_fields browser_info =
     do { ua \<leftarrow> dict_get browser_info ''userAgent'' (JStr []);
          la \<leftarrow> dict_get browser_info ''language'' (JStr []);
          pl \<leftarrow> dict_get browser_info ''platform'' (JStr []);
          hc \<leftarrow> dict_get browser_info ''hardwareConcurrency'' (JStr []);
          dm \<leftarrow> dict_get browser_info ''deviceMemory'' (JStr []);
          sc \<leftarrow> dict_get browser_info ''screen'' (JDict []);
          tz \<leftarrow> dict_get browser_info ''timezone'' (JStr []);
          cv \<leftarrow> dict_get browser_info ''canvas'' (JStr []);
          wg \<leftarrow> dict_get browser_info ''webgl'' (JStr []);
          Some [(''user_agent'', ua), (''language'', la), (''platform'', pl),
                (''hardware_concurrency'', hc), (''device_memory'', dm),
                (''screen_resolution'', sc), (''timezone'', tz),
                (''canvas_fingerprint'', cv), (''webgl_fingerprint'', wg)] }"

definition create_browser_fingerprint_try :: "json \<Rightarrow> feats \<times> bool" where
  "create_browser_fingerprint_try browser_info =
     (if truthy browser_info
      then (case fingerprint_fields browser_info of
              None \<Rightarrow> ([], True)
            | Some fingerprint \<Rightarrow> (fingerprint, False))
      else ([], False))"

definition create_browser_fingerprint :: "json \<Rightarrow> feats" where
  "create_browser_fingerprint browser_info = fst (create_browser_fingerprint_try browser_info)"

text \<open>One comparison of the web matchers: \<^verbatim>\<open>k in current_features and k in stored\<close>, then
  the relative difference of \<^verbatim>\<open>stored[k]\<close> and the feature.\<close>

definition web_term :: "feats \<Rightarrow> string \<Rightarrow> json \<Rightarrow> real \<Rightarrow> real \<Rightarrow> real option" where
  "web_term current_features k stored tol pts =
     (case map_of current_features k of
        None \<Rightarrow> Some 0
      | Some current \<Rightarrow>
          do { has \<leftarrow> py_in (JStr k) stored;
               if has
               then do { st \<leftarrow> py_getitem stored k;
                         difference \<leftarrow> rel_diff st current;
                         Some (if difference \<le> tol then pts else 0) }
               else Some 0 })"

definition verify_mouse_patterns_body :: "json \<Rightarrow> json \<Rightarrow> real option" where
  "verify_mouse_patterns_body current_movements stored_patterns =
     do { a \<leftarrow> web_term (extract_mouse_features current_movements) ''avg_mouse_speed''
                 stored_patterns 0.3 0.7;
          Some (min a 1) }"

definition verify_mouse_patterns :: "json \<Rightarrow> json \<Rightarrow> real" where
  "verify_mouse_patterns current_movements stored_patterns =
     (case verify_mouse_patterns_body current_movements stored_patterns of
        None \<Rightarrow> 0 | Some s \<Rightarrow> s)"

definition verify_web_typing_body :: "json \<Rightarrow> json \<Rightarrow> real option" where
  "verify_web_typing_body current_typing stored_rhythm =
     (let current_features = extract_web_typing_features current_typing
      in do { a \<leftarrow> web_term current_features ''avg_hold_time'' stored_rhythm 0.25 0.5;
              b \<leftarrow> web_term current_features ''avg_flight_time'' stored_rhythm 0.3 0.5;
              Some (min (a + b) 1) })"

definition verify_web_typing :: "json \<Rightarrow> json \<Rightarrow> real" where
  "verify_web_typing current_typing stored_rhythm =
     (case verify_web_typing_body current_typing stored_rhythm of None \<Rightarrow> 0 | Some s \<Rightarrow> s)"

definition verify_scroll_behavior_body ::
  "(json list \<Rightarrow> json list) \<Rightarrow> json \<Rightarrow> json \<Rightarrow> real option" where
  "verify_scroll_behavior_body set_order current_scroll stored_patterns =
     do { a \<leftarrow> web_term (extract_scroll_features set_order current_scroll) ''avg_scroll_speed''
                 stored_patterns 0.4 1;
          Some (min a 1) }"

definition verify_scroll_behavior :: "(json list \<Rightarrow> json list) \<Rightarrow> json \<Rightarrow> json \<Rightarrow> real" where
  "verify_scroll_behavior set_order current_scroll stored_patterns =
     (case verify_scroll_behavior_body set_order current_scroll stored_patterns of
        None \<Rightarrow> 0 | Some s \<Rightarrow> s)"

text \<open>\<^verbatim>\<open>_verify_browser_fingerprint\<close>: only a dict has \<^verbatim>\<open>.items()\<close>;
  \<^verbatim>\<open>current_fingerprint.get(key)\<close> is \<^verbatim>\<open>None\<close> for a key the fingerprint lacks.\<close>

definition matching_attributes :: "feats \<Rightarrow> feats \<Rightarrow> nat" where
  "matching_attributes current_fingerprint stored =
     length (filter (\<lambda>(key, stored_value).
        py_eq (case map_of current_fingerprint key of None \<Rightarrow> JNull | Some v \<Rightarrow> v)
              stored_value) stored)"

definition verify_browser_fingerprint_body :: "json \<Rightarrow> json \<Rightarrow> real option" where
  "verify_browser_fingerprint_body current_browser stored_fingerprint =
     (let current_fingerprint = create_browser_fingerprint current_browser
      in do { total_attributes \<leftarrow> py_len stored_fingerprint;
              if total_attributes = 0 then Some 0
              else (case stored_fingerprint of
                      JDict d \<Rightarrow>
                        Some (real (matching_attributes current_fingerprint d)
                                / real total_attributes)
                    | _ \<Rightarrow> None) })"

definition verify_browser_fingerprint :: "json \<Rightarrow> json \<Rightarrow> real" where
  "verify_browser_fingerprint current_browser stored_fingerprint =
     (case verify_browser_fingerprint_body current_browser stored_fingerprint of
        None \<Rightarrow> 0 | Some s \<Rightarrow> s)"

text \<open>\<^verbatim>\<open>_detect_web_anomalies\<close>: two rules inside one \<^verbatim>\<open>try\<close>, as in the mobile analyzer.\<close>

definition robotic_anomaly :: "json \<Rightarrow> string list option" where
  "robotic_anomaly current_data =
     do { mm \<leftarrow> dict_get current_data ''mouse_movements'' (JList []);
          case map_of (extract_mouse_features mm) ''mouse_speed_std'' of
            None \<Rightarrow> Some []
          | Some s \<Rightarrow>
              do { v \<leftarrow> num_of s;
                   Some (if v < 0.1 then [''robotic_mouse_movements''] else []) } }"

definition fingerprint_anomaly :: "json \<Rightarrow> json \<Rightarrow> string list option" where
  "fingerprint_anomaly current_data stored_profile =
     do { bi \<leftarrow> dict_get current_data ''browser_info'' (JDict []);
          sf \<leftarrow> dict_get stored_profile ''browser_fingerprint'' (JDict []);
          Some (if verify_browser_fingerprint bi sf < 0.3
                then [''browser_fingerprint_mismatch''] else []) }"

definition detect_web_anomalies :: "json \<Rightarrow> json \<Rightarrow> string list" where
  "detect_web_anomalies current_data stored_profile =
     (case robotic_anomaly current_data of
        None \<Rightarrow> []
      | Some a1 \<Rightarrow>
          (case fingerprint_anomaly current_data stored_profile of
             None \<Rightarrow> a1
           | Some a2 \<Rightarrow> a1 @ a2))"

text \<open>One channel of \<^verbatim>\<open>verify_web_behavior\<close> that needs an entry of the profile:
  \<^verbatim>\<open>if current_data.get(ck) and stored_profile.get(pk):\<close> with the weighted score of
  \<^verbatim>\<open>current_data[ck]\<close> against \<^verbatim>\<open>stored_profile[pk]\<close> appended.\<close>

definition web_channel ::
  "json \<Rightarrow> string \<Rightarrow> json \<Rightarrow> string \<Rightarrow> (json \<Rightarrow> json \<Rightarrow> real) \<Rightarrow> real \<Rightarrow> real list option" where
  "web_channel current_data ck stored_profile pk verify weight =
     do { c \<leftarrow> dict_get current_data ck JNull;
          if truthy c
          then do { p \<leftarrow> dict_get stored_profile pk JNull;
                    Some (if truthy p then [verify c p * weight] else []) }
          else Some [] }"

definition web_confidence_factors ::
  "(json list \<Rightarrow> json list) \<Rightarrow> json \<Rightarrow> json \<Rightarrow> real list option" where
  "web_confidence_factors set_order current_data stored_profile =
     do { f1 \<leftarrow> web_channel current_data ''mouse_movements'' stored_profile ''mouse_patterns''
                  verify_mouse_patterns 0.4;
          f2 \<leftarrow> web_channel current_data ''keystroke_timing'' stored_profile ''typing_rhythm''
                  verify_web_typing 0.3;
          f3 \<leftarrow> web_channel current_data ''scroll_events'' stored_profile ''scroll_patterns''
                  (verify_scroll_behavior set_order) 0.2;
          bi \<leftarrow> dict_get current_data ''browser_info'' JNull;
          f4 \<leftarrow> (if truthy bi
                 then do { sf \<leftarrow> dict_get stored_profile ''browser_fingerprint'' (JDict []);
                           Some [verify_browser_fingerprint bi sf * 0.1] }
                 else Some []);
          Some (f1 @ f2 @ f3 @ f4) }"

definition verify_web_behavior_body ::
  "(json list \<Rightarrow> json list) \<Rightarrow> json \<Rightarrow> json \<Rightarrow> (bool \<times> real \<times> real) option" where
  "verify_web_behavior_body set_order current_data stored_profile =
     do { factors \<leftarrow> web_confidence_factors set_order current_data stored_profile;
          Some (score 0.65 0.15 factors (detect_web_anomalies current_data stored_profile)) }"

definition verify_web_behavior ::
  "(json list \<Rightarrow> json list) \<Rightarrow> json \<Rightarrow> json \<Rightarrow> bool \<times> real \<times> real" where
  "verify_web_behavior set_order current_data stored_profile =
     (case verify_web_behavior_body set_order current_data stored_profile of
        None \<Rightarrow> (False, 0, 1)
      | Some r \<Rightarrow> r)"

section \<open>The decision of the views\<close>

text \<open>\<^verbatim>\<open>CrossPlatformVerificationView._prepare_verification_result\<close>; the dict it returns
  is a record. \<^verbatim>\<open>BiometricVerificationView.post\<close> builds the same dict inline (with
  another text for the suspicious message).\<close>

record verification_result =
  is_verified :: bool
  confidence_score :: real
  risk_score :: real
  status :: string
  message :: string
  requires_challenge :: bool
  challenge_type :: "string option"

definition prepare_verification_result :: "bool \<Rightarrow> real \<Rightarrow> real \<Rightarrow> verification_result" where
  "prepare_verification_result is_match confidence risk =
     (let (status_str, msg) =
            (if is_match \<and> confidence \<ge> 0.7
             then (''success'', ''Biometric verification successful'')
             else if confidence \<ge> 0.5
             then (''suspicious'',
                   ''Verification suspicious - additional authentication required'')
             else (''failed'', ''Biometric verification failed''))
      in \<lparr> is_verified = (is_match \<and> confidence \<ge> 0.7),
           confidence_score = confidence,
           risk_score = risk,
           status = status_str,
           message = msg,
           requires_challenge = (status_str = ''suspicious''),
           challenge_type = (if status_str = ''suspicious'' then Some ''otp'' else None) \<rparr>)"

text \<open>The inline decision of \<^verbatim>\<open>BiometricVerificationView.post\<close> (lines 166 to 199).\<close>

definition post_verification_result :: "bool \<Rightarrow> real \<Rightarrow> real \<Rightarrow> verification_result" where
  "post_verification_result is_match confidence risk =
     (let (status_str, msg) =
            (if is_match \<and> confidence \<ge> 0.7
             then (''success'', ''Biometric verification successful'')
             else if confidence \<ge> 0.5
             then (''suspicious'',
                   ''Biometric verification suspicious - additional authentication required'')
             else (''failed'', ''Biometric verification failed''))
      in \<lparr> is_verified = (is_match \<and> confidence \<ge> 0.7),
           confidence_score = confidence,
           risk_score = risk,
           status = status_str,
           message = msg,
           requires_challenge = (status_str = ''suspicious''),
           challenge_type = (if status_str = ''suspicious'' then Some ''otp'' else None) \<rparr>)"

text \<open>The \<open>clamp(x, lo, hi)\<close> of the specification's risk formula.\<close>

definition clamp :: "real \<Rightarrow> real \<Rightarrow> real \<Rightarrow> real" where
  "clamp x lo hi = max lo (min hi x)"

section \<open>The profile updater: \<^verbatim>\<open>update_biometric_profile\<close>\<close>


















section \<open>The signatures\<close>

text \<open>
  \<^verbatim>\<open>json.dumps(obj, sort_keys=True)\<close> and \<^verbatim>\<open>hashlib.sha256\<close> are libraries. The model
  writes out what \<^verbatim>\<open>json.dumps\<close> does with lists and dicts (the items of a dict sorted by
  key, the separators \<^verbatim>\<open>', '\<close> and \<^verbatim>\<open>': '\<close>) and takes as parameters how an int, a float
  and a string are printed (an \<open>encoder\<close>) and the hash, a function from the serialized
  string to the hex digest. Strings are compared as Python compares them, character by
  character.
\<close>

record encoder =
  enc_int :: "int \<Rightarrow> string"
  enc_float :: "real \<Rightarrow> string"
  enc_str :: "string \<Rightarrow> string"

fun join :: "string \<Rightarrow> string list \<Rightarrow> string" where
  "join sep [] = []"
| "join sep [x] = x"
| "join sep (x # y # ys) = x @ sep @ join sep (y # ys)"

text \<open>The items of a dict are serialized first and sorted by key then: the result is
  that of sorting the items and serializing them in that order.\<close>

fun dumps :: "encoder \<Rightarrow> json \<Rightarrow> string"
  and dumps_list :: "encoder \<Rightarrow> json list \<Rightarrow> string list"
  and dumps_items :: "encoder \<Rightarrow> (string \<times> json) list \<Rightarrow> (string \<times> string) list" where
  "dumps e JNull = ''null''"
| "dumps e (JBool b) = (if b then ''true'' else ''false'')"
| "dumps e (JInt i) = enc_int e i"
| "dumps e (JFloat x) = enc_float e x"
| "dumps e (JStr s) = enc_str e s"
| "dumps e (JList xs) = ''['' @ join '', '' (dumps_list e xs) @ '']''"
| "dumps e (JDict d) =
     ''{'' @ join '', '' (map (\<lambda>(k, v). enc_str e k @ '': '' @ v)
                              (sort_key fst (dumps_items e d))) @ ''}''"
| "dumps_list e [] = []"
| "dumps_list e (x # xs) = dumps e x # dumps_list e xs"
| "dumps_items e [] = []"
| "dumps_items e ((k, v) # d) = (k, dumps e v) # dumps_items e d"





text \<open>Two values hold the same content, with the keys of their dicts inserted in
  different orders, when they are equal once every dict is put in the order of its keys.\<close>

fun canon :: "json \<Rightarrow> json"
  and canon_list :: "json list \<Rightarrow> json list"
  and canon_items :: "(string \<times> json) list \<Rightarrow> (string \<times> json) list" where
  "canon (JList xs) = JList (canon_list xs)"
| "canon (JDict d) = JDict (sort_key fst (canon_items d))"
| "canon JNull = JNull"
| "canon (JBool b) = JBool b"
| "canon (JInt i) = JInt i"
| "canon (JFloat x) = JFloat x"
| "canon (JStr s) = JStr s"
| "canon_list [] = []"
| "canon_list (x # xs) = canon x # canon_list xs"
| "canon_items [] = []"
| "canon_items ((k, v) # d) = (k, canon v) # canon_items d"


section \<open>Verified properties\<close>

section \<open>Bounds of the channel scores\<close>

lemma verify_typing_pattern_bounds:
  "0 \<le> verify_typing_pattern c p \<and> verify_typing_pattern c p \<le> 1"
  by (auto simp: verify_typing_pattern_def verify_typing_pattern_body_def Let_def
      split: option.splits Option.bind_splits if_splits)

lemma touch_term_bounds:
  "touch_term f k p pk tol pts = Some a \<Longrightarrow> 0 \<le> pts \<Longrightarrow> 0 \<le> a \<and> a \<le> pts"
  by (auto simp: touch_term_def split: option.splits Option.bind_splits if_splits)

lemma verify_touch_patterns_bounds:
  "0 \<le> verify_touch_patterns c p \<and> verify_touch_patterns c p \<le> 1"
  by (auto simp: verify_touch_patterns_def verify_touch_patterns_body_def Let_def
      split: option.splits Option.bind_splits dest!: touch_term_bounds)

lemma verify_device_bounds: "0 \<le> verify_device c p \<and> verify_device c p \<le> 1"
  by (auto simp: verify_device_def verify_device_body_def
      split: option.splits Option.bind_splits if_splits)

lemma confidence_factors_sum:
  "confidence_factors c p = Some fs \<Longrightarrow> 0 \<le> sum_list fs \<and> sum_list fs \<le> 1"
  using verify_typing_pattern_bounds[of "the (dict_get c ''typing_pattern'' JNull)" p]
        verify_touch_patterns_bounds[of "the (dict_get c ''touch_patterns'' JNull)" p]
        verify_device_bounds[of "the (dict_get c ''device_characteristics'' JNull)" p]
  by (auto simp: confidence_factors_def split: Option.bind_splits if_splits)

lemma web_term_bounds:
  "web_term f k st tol pts = Some a \<Longrightarrow> 0 \<le> pts \<Longrightarrow> 0 \<le> a \<and> a \<le> pts"
  by (auto simp: web_term_def split: option.splits Option.bind_splits if_splits)

lemma verify_mouse_patterns_bounds:
  "0 \<le> verify_mouse_patterns c p \<and> verify_mouse_patterns c p \<le> 1"
  by (auto simp: verify_mouse_patterns_def verify_mouse_patterns_body_def
      split: option.splits Option.bind_splits dest!: web_term_bounds)

lemma verify_web_typing_bounds:
  "0 \<le> verify_web_typing c p \<and> verify_web_typing c p \<le> 1"
  by (auto simp: verify_web_typing_def verify_web_typing_body_def Let_def
      split: option.splits Option.bind_splits dest!: web_term_bounds)

lemma verify_scroll_behavior_bounds:
  "0 \<le> verify_scroll_behavior so c p \<and> verify_scroll_behavior so c p \<le> 1"
  by (auto simp: verify_scroll_behavior_def verify_scroll_behavior_body_def
      split: option.splits Option.bind_splits dest!: web_term_bounds)

lemma matching_attributes_le: "matching_attributes f d \<le> length d"
  by (simp add: matching_attributes_def)

lemma verify_browser_fingerprint_bounds:
  "0 \<le> verify_browser_fingerprint c p \<and> verify_browser_fingerprint c p \<le> 1"
proof -
  have "real (matching_attributes f d) / real (length d) \<le> 1" if "length d \<noteq> 0" for f d
    using that matching_attributes_le[of f d] by (simp add: divide_le_eq_1)
  then show ?thesis
    by (auto simp: verify_browser_fingerprint_def verify_browser_fingerprint_body_def Let_def
        split: option.splits Option.bind_splits if_splits json.splits)
qed

lemma web_channel_sum:
  assumes "web_channel c ck p pk verify w = Some fs" and "0 \<le> w"
    and "\<And>a b. 0 \<le> verify a b \<and> verify a b \<le> 1"
  shows "0 \<le> sum_list fs \<and> sum_list fs \<le> w"
proof -
  have "verify a b * w \<le> w" for a b
    using assms(2) assms(3)[of a b] by (simp add: mult_left_le_one_le)
  moreover have "0 \<le> verify a b * w" for a b
    using assms(2) assms(3)[of a b] by simp
  ultimately show ?thesis
    using assms(1,2) by (auto simp: web_channel_def split: Option.bind_splits if_splits)
qed

lemma web_confidence_factors_sum:
  assumes "web_confidence_factors so c p = Some fs"
  shows "0 \<le> sum_list fs \<and> sum_list fs \<le> 1"
proof -
  from assms obtain f1 f2 f3 f4 where
    f1: "web_channel c ''mouse_movements'' p ''mouse_patterns'' verify_mouse_patterns 0.4 = Some f1"
    and f2: "web_channel c ''keystroke_timing'' p ''typing_rhythm'' verify_web_typing 0.3 = Some f2"
    and f3: "web_channel c ''scroll_events'' p ''scroll_patterns'' (verify_scroll_behavior so) 0.2 = Some f3"
    and f4: "f4 = [] \<or> f4 = [verify_browser_fingerprint (the (dict_get c ''browser_info'' JNull))
                (the (dict_get p ''browser_fingerprint'' (JDict []))) * 0.1]"
    and fs: "fs = f1 @ f2 @ f3 @ f4"
    by (auto simp: web_confidence_factors_def split: Option.bind_splits if_splits)
  have b1: "0 \<le> sum_list f1 \<and> sum_list f1 \<le> 0.4"
    using web_channel_sum[OF f1] verify_mouse_patterns_bounds by simp
  have b2: "0 \<le> sum_list f2 \<and> sum_list f2 \<le> 0.3"
    using web_channel_sum[OF f2] verify_web_typing_bounds by simp
  have b3: "0 \<le> sum_list f3 \<and> sum_list f3 \<le> 0.2"
    using web_channel_sum[OF f3] verify_scroll_behavior_bounds by simp
  have b4: "0 \<le> sum_list f4 \<and> sum_list f4 \<le> 0.1"
    using f4 verify_browser_fingerprint_bounds[of "the (dict_get c ''browser_info'' JNull)"
        "the (dict_get p ''browser_fingerprint'' (JDict []))"] by auto
  show ?thesis using b1 b2 b3 b4 by (simp add: fs)
qed

lemma score_bounds:
  assumes "0 \<le> sum_list fs" and "sum_list fs \<le> 1" and "0 \<le> pen"
  shows "0 \<le> fst (snd (score t pen fs an)) \<and> fst (snd (score t pen fs an)) \<le> 1
       \<and> 0 \<le> snd (snd (score t pen fs an)) \<and> snd (snd (score t pen fs an)) \<le> 1"
  using assms by (auto simp: score_def Let_def)

lemma score_risk:
  assumes "0 \<le> sum_list fs" and "sum_list fs \<le> 1" and "0 \<le> pen"
  shows "snd (snd (score t pen fs an))
           = clamp (1 - fst (snd (score t pen fs an)) + pen * real (length an)) 0 1"
  using assms by (auto simp: score_def Let_def clamp_def mult.commute)

lemma score_confidence: "fst (snd (score t pen fs an)) = sum_list fs"
  by (simp add: score_def Let_def)

text \<open>
  Claim C2. For every sample and every profile, the confidence and the risk that
  \<^verbatim>\<open>verify_behavioral_match\<close> and \<^verbatim>\<open>verify_web_behavior\<close> return lie between 0 and 1: every
  channel score is between 0 and 1 and the weights add up to 1, so the sum of the
  weighted scores never exceeds 1, and the risk is cut off at 0 and at 1.
\<close>

theorem confidence_and_risk_bounds:
  "0 \<le> fst (snd (verify_behavioral_match cur prof))
   \<and> fst (snd (verify_behavioral_match cur prof)) \<le> 1
   \<and> 0 \<le> snd (snd (verify_behavioral_match cur prof))
   \<and> snd (snd (verify_behavioral_match cur prof)) \<le> 1
   \<and> 0 \<le> fst (snd (verify_web_behavior set_order cur prof))
   \<and> fst (snd (verify_web_behavior set_order cur prof)) \<le> 1
   \<and> 0 \<le> snd (snd (verify_web_behavior set_order cur prof))
   \<and> snd (snd (verify_web_behavior set_order cur prof)) \<le> 1"
proof -
  have m: "0 \<le> fst (snd (verify_behavioral_match cur prof))
   \<and> fst (snd (verify_behavioral_match cur prof)) \<le> 1
   \<and> 0 \<le> snd (snd (verify_behavioral_match cur prof))
   \<and> snd (snd (verify_behavioral_match cur prof)) \<le> 1"
  proof (cases "confidence_factors cur prof")
    case None
    then show ?thesis
      by (simp add: verify_behavioral_match_def verify_behavioral_match_body_def)
  next
    case (Some fs)
    with score_bounds[of fs "0.2" "0.7" "detect_anomalies cur prof"] confidence_factors_sum[OF Some]
    show ?thesis
      by (simp add: verify_behavioral_match_def verify_behavioral_match_body_def)
  qed
  have w: "0 \<le> fst (snd (verify_web_behavior set_order cur prof))
   \<and> fst (snd (verify_web_behavior set_order cur prof)) \<le> 1
   \<and> 0 \<le> snd (snd (verify_web_behavior set_order cur prof))
   \<and> snd (snd (verify_web_behavior set_order cur prof)) \<le> 1"
  proof (cases "web_confidence_factors set_order cur prof")
    case None
    then show ?thesis
      by (simp add: verify_web_behavior_def verify_web_behavior_body_def)
  next
    case (Some fs)
    with score_bounds[of fs "0.15" "0.65" "detect_web_anomalies cur prof"]
      web_confidence_factors_sum[OF Some]
    show ?thesis
      by (simp add: verify_web_behavior_def verify_web_behavior_body_def)
  qed
  from m w show ?thesis by simp
qed

text \<open>
  Claim C5. The risk is \<open>clamp (1 - confidence + penalty * |anomalies|) 0 1\<close>, with a
  penalty of 0.2 for each anomaly tag of the mobile analyzer and of 0.15 for each tag of
  the web analyzer. It holds for every sample and profile; when the handler of the
  verify method is taken the confidence is 0 and the risk 1, which the formula gives too.
\<close>

theorem risk_formula:
  "snd (snd (verify_behavioral_match cur prof))
     = clamp (1 - fst (snd (verify_behavioral_match cur prof))
              + 0.2 * real (length (detect_anomalies cur prof))) 0 1
   \<and> snd (snd (verify_web_behavior set_order cur prof))
     = clamp (1 - fst (snd (verify_web_behavior set_order cur prof))
              + 0.15 * real (length (detect_web_anomalies cur prof))) 0 1"
proof -
  have m: "snd (snd (verify_behavioral_match cur prof))
     = clamp (1 - fst (snd (verify_behavioral_match cur prof))
              + 0.2 * real (length (detect_anomalies cur prof))) 0 1"
  proof (cases "confidence_factors cur prof")
    case None
    then show ?thesis
      by (simp add: verify_behavioral_match_def verify_behavioral_match_body_def clamp_def)
  next
    case (Some fs)
    with score_risk[of fs "0.2" "0.7" "detect_anomalies cur prof"] confidence_factors_sum[OF Some]
    show ?thesis
      by (simp add: verify_behavioral_match_def verify_behavioral_match_body_def)
  qed
  have w: "snd (snd (verify_web_behavior set_order cur prof))
     = clamp (1 - fst (snd (verify_web_behavior set_order cur prof))
              + 0.15 * real (length (detect_web_anomalies cur prof))) 0 1"
  proof (cases "web_confidence_factors set_order cur prof")
    case None
    then show ?thesis
      by (simp add: verify_web_behavior_def verify_web_behavior_body_def clamp_def)
  next
    case (Some fs)
    with score_risk[of fs "0.15" "0.65" "detect_web_anomalies cur prof"]
      web_confidence_factors_sum[OF Some]
    show ?thesis
      by (simp add: verify_web_behavior_def verify_web_behavior_body_def)
  qed
  from m w show ?thesis by simp
qed

text \<open>The definitions a concrete sample is evaluated with.\<close>

lemmas mobile_defs = verify_behavioral_match_def verify_behavioral_match_body_def
  confidence_factors_def score_def detect_anomalies_def typing_anomaly_def device_anomaly_def
  verify_typing_pattern_def verify_typing_pattern_body_def verify_touch_patterns_def
  verify_touch_patterns_body_def touch_term_def verify_device_def verify_device_body_def
  extract_typing_features_def extract_typing_features_try_def extract_touch_features_def
  extract_touch_features_try_def hold_part_def flight_part_def swipe_part_def pressure_part_def
  hold_values_of_def mean_std_def rel_diff_def Let_def

lemmas web_defs = verify_web_behavior_def verify_web_behavior_body_def
  web_confidence_factors_def web_channel_def score_def detect_web_anomalies_def
  robotic_anomaly_def fingerprint_anomaly_def verify_mouse_patterns_def
  verify_mouse_patterns_body_def verify_web_typing_def verify_web_typing_body_def
  verify_scroll_behavior_def verify_scroll_behavior_body_def verify_browser_fingerprint_def
  verify_browser_fingerprint_body_def matching_attributes_def web_term_def
  extract_mouse_features_def extract_mouse_features_try_def mouse_speed_part_def
  mouse_angle_part_def extract_scroll_features_def extract_scroll_features_try_def
  scroll_speed_part_def scroll_direction_part_def extract_web_typing_features_def
  extract_web_typing_features_try_def keystroke_lists_def list_stats_def
  create_browser_fingerprint_def create_browser_fingerprint_try_def fingerprint_fields_def
  has_xy_def py_sub_def py_set_def py_add_def py_member_def py_count_def
  mean_std_def rel_diff_def Let_def

theorem confidence_and_risk_bounds_witness:
  "fst (snd (verify_behavioral_match
      (JDict [(''typing_pattern'', JDict [(''key_hold_times'', JList [JInt 175])])])
      (JDict [(''typical_hold_times'', JList [JInt 150]), (''avg_typing_speed'', JInt 150)])))
     \<le> 1
   \<and> verify_behavioral_match
      (JDict [(''typing_pattern'', JDict [(''key_hold_times'', JList [JInt 175])])])
      (JDict [(''typical_hold_times'', JList [JInt 150]), (''avg_typing_speed'', JInt 150)])
     = (False, 0.35, 0.65)
   \<and> snd (snd (verify_web_behavior (\<lambda>xs. xs)
      (JDict [(''mouse_movements'', JList [JDict [(''speed'', JInt 4)]])])
      (JDict [(''mouse_patterns'', JDict [(''avg_mouse_speed'', JInt 4)])]))) \<le> 1
   \<and> verify_web_behavior (\<lambda>xs. xs)
      (JDict [(''mouse_movements'', JList [JDict [(''speed'', JInt 4)]])])
      (JDict [(''mouse_patterns'', JDict [(''avg_mouse_speed'', JInt 4)])])
     = (False, 0.28, 1)"
  using confidence_and_risk_bounds[where
      cur = "JDict [(''typing_pattern'', JDict [(''key_hold_times'', JList [JInt 175])])]" and
      prof = "JDict [(''typical_hold_times'', JList [JInt 150]), (''avg_typing_speed'', JInt 150)]"]
    confidence_and_risk_bounds[where set_order = "\<lambda>xs. xs" and
      cur = "JDict [(''mouse_movements'', JList [JDict [(''speed'', JInt 4)]])]" and
      prof = "JDict [(''mouse_patterns'', JDict [(''avg_mouse_speed'', JInt 4)])]"]
  by (simp add: mobile_defs web_defs)

lemma stdev_3_5: "\<not> stdev [3, 5] * 10 < 1"
proof -
  have e: "stdev [3, 5] = sqrt 2" by (simp add: stdev_def Let_def)
  have "1 \<le> sqrt 2" by simp
  then have "\<not> sqrt 2 * 10 < 1" by linarith
  with e show ?thesis by simp
qed

theorem risk_formula_witness:
  "verify_behavioral_match
     (JDict [(''typing_pattern'', JDict [(''key_hold_times'', JList [JInt 175])]),
             (''device_characteristics'',
                JDict [(''device_id'', JStr ''new-phone''), (''os'', JStr ''android'')])])
     (JDict [(''typical_hold_times'', JList [JInt 150]), (''avg_typing_speed'', JInt 150),
             (''trusted_devices'', JList [JStr ''old-phone'']),
             (''device_characteristics'', JDict [(''typical_os'', JStr ''android'')])])
    = (False, 0.45, 0.75)
   \<and> detect_anomalies
     (JDict [(''typing_pattern'', JDict [(''key_hold_times'', JList [JInt 175])]),
             (''device_characteristics'',
                JDict [(''device_id'', JStr ''new-phone''), (''os'', JStr ''android'')])])
     (JDict [(''typical_hold_times'', JList [JInt 150]), (''avg_typing_speed'', JInt 150),
             (''trusted_devices'', JList [JStr ''old-phone'']),
             (''device_characteristics'', JDict [(''typical_os'', JStr ''android'')])])
    = [''unfamiliar_device'']
   \<and> clamp (1 - 0.45 + 0.2 * real (length [''unfamiliar_device''])) 0 1 = 0.75
   \<and> detect_anomalies
     (JDict [(''typing_pattern'', JDict [(''key_hold_times'', JList [JInt 160])]),
             (''device_characteristics'', JDict [(''device_id'', JStr ''new-phone'')])])
     (JDict [(''typical_hold_times'', JList [JInt 100]), (''avg_typing_speed'', JInt 100),
             (''trusted_devices'', JList [JStr ''old-phone''])])
    = [''typing_speed_anomaly'', ''unfamiliar_device'']
   \<and> verify_behavioral_match
     (JDict [(''typing_pattern'', JDict [(''key_hold_times'', JList [JInt 160])]),
             (''device_characteristics'', JDict [(''device_id'', JStr ''new-phone'')])])
     (JDict [(''typical_hold_times'', JList [JInt 100]), (''avg_typing_speed'', JInt 100),
             (''trusted_devices'', JList [JStr ''old-phone''])])
    = (False, 0, 1)
   \<and> verify_web_behavior (\<lambda>xs. xs)
      (JDict [(''mouse_movements'', JList [JDict [(''speed'', JInt 3)], JDict [(''speed'', JInt 5)]])])
      (JDict [(''mouse_patterns'', JDict [(''avg_mouse_speed'', JInt 4)]),
              (''browser_fingerprint'', JDict [(''language'', JStr ''en'')])])
     = (False, 0.28, 0.87)"
  using risk_formula[where
      cur = "JDict [(''typing_pattern'', JDict [(''key_hold_times'', JList [JInt 175])]),
             (''device_characteristics'',
                JDict [(''device_id'', JStr ''new-phone''), (''os'', JStr ''android'')])]" and
      prof = "JDict [(''typical_hold_times'', JList [JInt 150]), (''avg_typing_speed'', JInt 150),
             (''trusted_devices'', JList [JStr ''old-phone'']),
             (''device_characteristics'', JDict [(''typical_os'', JStr ''android'')])]" and
      set_order = "\<lambda>xs. xs"]
  by (simp add: mobile_defs web_defs clamp_def stdev_3_5)

section \<open>The decision mapping\<close>

text \<open>
  Claim C4. The decision of the views on an outcome \<open>(is_match, confidence, risk)\<close>:
  success, verified and no challenge when \<open>is_match\<close> holds and the confidence is at
  least 0.70; otherwise suspicious, not verified and an OTP challenge when the confidence is
  at least 0.50; otherwise failed, not verified and no challenge.
\<close>

theorem decision_mapping:
  "(is_match \<and> confidence \<ge> 0.7 \<longrightarrow>
      status (prepare_verification_result is_match confidence risk) = ''success''
      \<and> is_verified (prepare_verification_result is_match confidence risk)
      \<and> \<not> requires_challenge (prepare_verification_result is_match confidence risk)
      \<and> status (post_verification_result is_match confidence risk) = ''success''
      \<and> is_verified (post_verification_result is_match confidence risk)
      \<and> \<not> requires_challenge (post_verification_result is_match confidence risk))
   \<and> (\<not> (is_match \<and> confidence \<ge> 0.7) \<and> confidence \<ge> 0.5 \<longrightarrow>
      status (prepare_verification_result is_match confidence risk) = ''suspicious''
      \<and> \<not> is_verified (prepare_verification_result is_match confidence risk)
      \<and> requires_challenge (prepare_verification_result is_match confidence risk)
      \<and> challenge_type (prepare_verification_result is_match confidence risk) = Some ''otp''
      \<and> status (post_verification_result is_match confidence risk) = ''suspicious''
      \<and> \<not> is_verified (post_verification_result is_match confidence risk)
      \<and> requires_challenge (post_verification_result is_match confidence risk)
      \<and> challenge_type (post_verification_result is_match confidence risk) = Some ''otp'')
   \<and> (\<not> (is_match \<and> confidence \<ge> 0.7) \<and> \<not> confidence \<ge> 0.5 \<longrightarrow>
      status (prepare_verification_result is_match confidence risk) = ''failed''
      \<and> \<not> is_verified (prepare_verification_result is_match confidence risk)
      \<and> \<not> requires_challenge (prepare_verification_result is_match confidence risk)
      \<and> status (post_verification_result is_match confidence risk) = ''failed''
      \<and> \<not> is_verified (post_verification_result is_match confidence risk)
      \<and> \<not> requires_challenge (post_verification_result is_match confidence risk))"
  by (simp add: prepare_verification_result_def post_verification_result_def)

theorem decision_mapping_witness:
  "status (prepare_verification_result True 0.75 0.25) = ''success''
   \<and> is_verified (prepare_verification_result True 0.75 0.25)
   \<and> \<not> requires_challenge (prepare_verification_result True 0.75 0.25)
   \<and> status (post_verification_result False 0.55 0.45) = ''suspicious''
   \<and> requires_challenge (prepare_verification_result False 0.55 0.45)
   \<and> challenge_type (prepare_verification_result False 0.55 0.45) = Some ''otp''
   \<and> status (prepare_verification_result False 0.2 0.8) = ''failed''
   \<and> \<not> is_verified (post_verification_result False 0.2 0.8)"
  using decision_mapping[of True "0.75" "0.25"] decision_mapping[of False "0.55" "0.45"]
    decision_mapping[of False "0.2" "0.8"]
  by simp

section \<open>The mobile threshold scenario and the missing channels\<close>

lemma extract_typing_features_falsy:
  "\<not> truthy tp \<Longrightarrow> extract_typing_features tp = []"
  by (cases tp)
     (simp_all add: extract_typing_features_def extract_typing_features_try_def hold_part_def
        flight_part_def)

lemma verify_typing_pattern_no_feature:
  "map_of (extract_typing_features tp) ''avg_hold_time'' = None \<Longrightarrow> verify_typing_pattern tp prof = 0"
  by (simp add: verify_typing_pattern_def verify_typing_pattern_body_def)

lemma verify_typing_pattern_no_baseline:
  assumes "dict_get prof ''typical_hold_times'' JNull = None
           \<or> (\<exists>th. dict_get prof ''typical_hold_times'' JNull = Some th \<and> \<not> truthy th)"
  shows "verify_typing_pattern tp prof = 0"
  using assms
  by (cases "map_of (extract_typing_features tp) ''avg_hold_time''")
     (auto simp: verify_typing_pattern_def verify_typing_pattern_body_def)

lemma typing_only_confidence:
  assumes "dict_get cur ''typing_pattern'' JNull = Some tp"
    and "dict_get cur ''touch_patterns'' JNull = Some tc" and "\<not> truthy tc"
    and "dict_get cur ''device_characteristics'' JNull = Some dc" and "\<not> truthy dc"
  shows "fst (snd (verify_behavioral_match cur prof)) = verify_typing_pattern tp prof * 0.5"
proof (cases "truthy tp")
  case False
  then have "verify_typing_pattern tp prof = 0"
    by (simp add: extract_typing_features_falsy verify_typing_pattern_no_feature)
  with False assms show ?thesis
    by (simp add: verify_behavioral_match_def verify_behavioral_match_body_def
        confidence_factors_def score_confidence)
next
  case True
  show ?thesis
  proof (cases "dict_get prof ''typical_hold_times'' JNull")
    case None
    then have "verify_typing_pattern tp prof = 0"
      by (simp add: verify_typing_pattern_no_baseline)
    with None True assms show ?thesis
      by (simp add: verify_behavioral_match_def verify_behavioral_match_body_def
          confidence_factors_def)
  next
    case (Some th)
    show ?thesis
    proof (cases "truthy th")
      case False
      with Some have "verify_typing_pattern tp prof = 0"
        by (simp add: verify_typing_pattern_no_baseline)
      with Some False True assms show ?thesis
        by (simp add: verify_behavioral_match_def verify_behavioral_match_body_def
            confidence_factors_def score_confidence)
    next
      case th: True
      with Some True assms show ?thesis
        by (simp add: verify_behavioral_match_def verify_behavioral_match_body_def
            confidence_factors_def score_confidence)
    qed
  qed
qed

text \<open>
  Claim C7. A sample whose touch patterns and device characteristics are absent or empty:
  the confidence of \<^verbatim>\<open>verify_behavioral_match\<close> is the score of the typing channel times
  its weight 0.5, for every profile. The absent channels add nothing and take nothing
  away, and their weights are not given to the typing channel.
\<close>

theorem typing_channel_alone:
  assumes "dict_get cur ''typing_pattern'' JNull = Some tp"
    and "dict_get cur ''touch_patterns'' JNull = Some tc" and "\<not> truthy tc"
    and "dict_get cur ''device_characteristics'' JNull = Some dc" and "\<not> truthy dc"
  shows "fst (snd (verify_behavioral_match cur prof)) = verify_typing_pattern tp prof * 0.5"
  using assms by (rule typing_only_confidence)



theorem typing_channel_alone_witness:
  "dict_get (JDict [(''typing_pattern'', JDict [(''key_hold_times'', JList [JInt 200])]),
                    (''touch_patterns'', JDict [])])
      ''touch_patterns'' JNull = Some (JDict [])
   \<and> \<not> truthy (JDict [])
   \<and> verify_typing_pattern (JDict [(''key_hold_times'', JList [JInt 200])])
        (JDict [(''typical_hold_times'', JList [JInt 150]), (''avg_typing_speed'', JInt 150)])
       = 0.3
   \<and> fst (snd (verify_behavioral_match
        (JDict [(''typing_pattern'', JDict [(''key_hold_times'', JList [JInt 200])]),
                (''touch_patterns'', JDict [])])
        (JDict [(''typical_hold_times'', JList [JInt 150]), (''avg_typing_speed'', JInt 150)])))
       = 0.15"
proof -
  let ?tp = "JDict [(''key_hold_times'', JList [JInt 200])]"
  let ?cur = "JDict [(''typing_pattern'', ?tp), (''touch_patterns'', JDict [])]"
  let ?prof = "JDict [(''typical_hold_times'', JList [JInt 150]), (''avg_typing_speed'', JInt 150)]"
  have h1: "dict_get ?cur ''typing_pattern'' JNull = Some ?tp" by simp
  have h2: "dict_get ?cur ''touch_patterns'' JNull = Some (JDict [])" by simp
  have h3: "\<not> truthy (JDict [])" by simp
  have h4: "dict_get ?cur ''device_characteristics'' JNull = Some JNull" by simp
  have h5: "\<not> truthy JNull" by simp
  have v: "verify_typing_pattern ?tp ?prof = 0.3"
    by (simp add: verify_typing_pattern_def verify_typing_pattern_body_def
        extract_typing_features_def extract_typing_features_try_def hold_part_def
        flight_part_def hold_values_of_def mean_std_def rel_diff_def)
  from typing_channel_alone[OF h1 h2 h3 h4 h5, of ?prof] h2 v show ?thesis by simp
qed

section \<open>The handlers of the verify methods\<close>

text \<open>
  Claim C1, as stated, fails: an exception raised while the features are extracted is
  caught by the extractor. Here \<^verbatim>\<open>statistics.mean\<close> raises on the hold times
  \<^verbatim>\<open>['a', 'b']\<close>, the typing channel scores 0.0, and the trusted device still counts: the
  result is \<open>(False, 0.2, 0.8)\<close>, not the fail-closed triple.
\<close>

theorem extraction_exception_not_fail_closed:
  "snd (extract_typing_features_try (JDict [(''key_hold_times'', JList [JStr ''a'', JStr ''b''])]))
   \<and> py_mean (JList [JStr ''a'', JStr ''b'']) = None
   \<and> verify_behavioral_match
        (JDict [(''typing_pattern'', JDict [(''key_hold_times'', JList [JStr ''a'', JStr ''b''])]),
                (''device_characteristics'', JDict [(''device_id'', JStr ''d1'')])])
        (JDict [(''typical_hold_times'', JList [JInt 150]),
                (''trusted_devices'', JList [JStr ''d1''])])
      = (False, 0.2, 0.8)
   \<and> verify_behavioral_match
        (JDict [(''typing_pattern'', JDict [(''key_hold_times'', JList [JStr ''a'', JStr ''b''])]),
                (''device_characteristics'', JDict [(''device_id'', JStr ''d1'')])])
        (JDict [(''typical_hold_times'', JList [JInt 150]),
                (''trusted_devices'', JList [JStr ''d1''])])
      \<noteq> (False, 0, 1)"
  by (simp add: mobile_defs)

text \<open>What reaches the handler of the two verify methods.\<close>

lemma confidence_factors_dicts:
  "confidence_factors (JDict c) (JDict p) \<noteq> None"
  by (simp add: confidence_factors_def)

lemma web_channel_dicts: "web_channel (JDict c) ck (JDict p) pk v w \<noteq> None"
  by (simp add: web_channel_def)

lemma web_confidence_factors_dicts:
  "web_confidence_factors so (JDict c) (JDict p) \<noteq> None"
proof -
  obtain f1 where f1: "web_channel (JDict c) ''mouse_movements'' (JDict p) ''mouse_patterns''
      verify_mouse_patterns 0.4 = Some f1"
    using web_channel_dicts by blast
  obtain f2 where f2: "web_channel (JDict c) ''keystroke_timing'' (JDict p) ''typing_rhythm''
      verify_web_typing 0.3 = Some f2"
    using web_channel_dicts by blast
  obtain f3 where f3: "web_channel (JDict c) ''scroll_events'' (JDict p) ''scroll_patterns''
      (verify_scroll_behavior so) 0.2 = Some f3"
    using web_channel_dicts by blast
  show ?thesis
    unfolding web_confidence_factors_def f1 f2 f3 by simp
qed

lemma not_dict_get: "\<not> is_dict v \<Longrightarrow> dict_get v k d = None"
  by (cases v) simp_all

text \<open>
  Claim C1, amended. For every sample and profile, whenever an exception reaches the
  handler of \<^verbatim>\<open>verify_behavioral_match\<close> or of \<^verbatim>\<open>verify_web_behavior\<close>, the method returns
  \<open>(False, 0.0, 1.0)\<close>. That is so whenever the sample is not a dict; with a dict for the
  sample and a dict for the profile no exception reaches the handler.
\<close>

theorem fail_closed_at_handler:
  "(verify_behavioral_match_body cur prof = None
      \<longrightarrow> verify_behavioral_match cur prof = (False, 0, 1))
   \<and> (verify_web_behavior_body set_order cur prof = None
      \<longrightarrow> verify_web_behavior set_order cur prof = (False, 0, 1))
   \<and> (\<not> is_dict cur
      \<longrightarrow> verify_behavioral_match_body cur prof = None
        \<and> verify_web_behavior_body set_order cur prof = None)
   \<and> (is_dict cur \<and> is_dict prof
      \<longrightarrow> verify_behavioral_match_body cur prof \<noteq> None
        \<and> verify_web_behavior_body set_order cur prof \<noteq> None)"
proof -
  have a: "verify_behavioral_match_body cur prof = None
      \<longrightarrow> verify_behavioral_match cur prof = (False, 0, 1)"
    by (simp add: verify_behavioral_match_def)
  have b: "verify_web_behavior_body set_order cur prof = None
      \<longrightarrow> verify_web_behavior set_order cur prof = (False, 0, 1)"
    by (simp add: verify_web_behavior_def)
  have c: "\<not> is_dict cur
      \<longrightarrow> verify_behavioral_match_body cur prof = None
        \<and> verify_web_behavior_body set_order cur prof = None"
    by (simp add: verify_behavioral_match_body_def confidence_factors_def
        verify_web_behavior_body_def web_confidence_factors_def web_channel_def not_dict_get)
  have d: "is_dict cur \<and> is_dict prof
      \<longrightarrow> verify_behavioral_match_body cur prof \<noteq> None
        \<and> verify_web_behavior_body set_order cur prof \<noteq> None"
  proof
    assume "is_dict cur \<and> is_dict prof"
    then obtain c p where "cur = JDict c" "prof = JDict p"
      by (cases cur; cases prof) auto
    moreover obtain fs where "confidence_factors (JDict c) (JDict p) = Some fs"
      using confidence_factors_dicts[of c p] by blast
    moreover obtain ws where "web_confidence_factors set_order (JDict c) (JDict p) = Some ws"
      using web_confidence_factors_dicts[of set_order c p] by blast
    ultimately show "verify_behavioral_match_body cur prof \<noteq> None
        \<and> verify_web_behavior_body set_order cur prof \<noteq> None"
      by (simp add: verify_behavioral_match_body_def verify_web_behavior_body_def)
  qed
  from a b c d show ?thesis by blast
qed

theorem fail_closed_at_handler_witness:
  "\<not> is_dict (JList [JInt 1])
   \<and> verify_behavioral_match_body (JList [JInt 1]) (JDict []) = None
   \<and> verify_behavioral_match (JList [JInt 1]) (JDict []) = (False, 0, 1)
   \<and> verify_web_behavior_body (\<lambda>xs. xs) (JList [JInt 1]) (JDict []) = None
   \<and> verify_web_behavior (\<lambda>xs. xs) (JList [JInt 1]) (JDict []) = (False, 0, 1)
   \<and> is_dict (JDict [])
   \<and> verify_behavioral_match_body (JDict []) (JDict []) \<noteq> None"
  using fail_closed_at_handler[of "JList [JInt 1]" "JDict []" "\<lambda>xs. xs"]
    fail_closed_at_handler[of "JDict []" "JDict []" "\<lambda>xs. xs"]
  by simp

section \<open>The anomalies of the web analyzer\<close>

lemma mean_std_std_num:
  assumes "mean_std a s v = Some f" and "map_of f s = Some x" and "a \<noteq> s"
  shows "num_of x \<noteq> None"
  using assms by (auto simp: mean_std_def split: Option.bind_splits if_splits)

lemma mouse_speed_part_std_num:
  assumes "mouse_speed_part mm = Some f" and "map_of f ''mouse_speed_std'' = Some x"
  shows "num_of x \<noteq> None"
proof -
  from assms obtain speeds where
    "mean_std ''avg_mouse_speed'' ''mouse_speed_std'' (JList speeds) = Some f"
    by (auto simp: mouse_speed_part_def split: Option.bind_splits if_splits)
  from mean_std_std_num[OF this assms(2)] show ?thesis by simp
qed

lemma mouse_angle_part_no_std:
  "mouse_angle_part mm = Some f \<Longrightarrow> map_of f ''mouse_speed_std'' = None"
  by (auto simp: mouse_angle_part_def split: Option.bind_splits if_splits)

lemma mouse_std_num:
  assumes "map_of (extract_mouse_features mm) ''mouse_speed_std'' = Some x"
  shows "num_of x \<noteq> None"
  using assms mouse_speed_part_std_num[of mm] mouse_angle_part_no_std[of mm]
  by (auto simp: extract_mouse_features_def extract_mouse_features_try_def
      split: if_splits option.splits)

lemma robotic_anomaly_dict: "robotic_anomaly (JDict c) \<noteq> None"
proof (cases "map_of (extract_mouse_features
    (case map_of c ''mouse_movements'' of None \<Rightarrow> JList [] | Some v \<Rightarrow> v)) ''mouse_speed_std''")
  case None
  then show ?thesis by (simp add: robotic_anomaly_def)
next
  case (Some x)
  with mouse_std_num[OF Some] show ?thesis by (auto simp: robotic_anomaly_def)
qed

lemma verify_browser_fingerprint_empty:
  "py_len sf = Some 0 \<Longrightarrow> verify_browser_fingerprint bi sf = 0"
  by (simp add: verify_browser_fingerprint_def verify_browser_fingerprint_body_def)

text \<open>
  Claim C9. A profile whose stored browser fingerprint is empty (or absent, which reads
  as the empty dict): \<^verbatim>\<open>_verify_browser_fingerprint\<close> returns 0.0 whatever the browser data
  of the sample, 0.0 is below 0.3, and \<^verbatim>\<open>_detect_web_anomalies\<close> on a sample (a dict)
  reports \<^verbatim>\<open>browser_fingerprint_mismatch\<close>.
\<close>

theorem empty_fingerprint_always_flagged:
  assumes "is_dict cur"
    and "dict_get prof ''browser_fingerprint'' (JDict []) = Some sf"
    and "py_len sf = Some 0"
  shows "verify_browser_fingerprint bi sf = 0
       \<and> verify_browser_fingerprint bi sf < 0.3
       \<and> ''browser_fingerprint_mismatch'' \<in> set (detect_web_anomalies cur prof)"
proof -
  from assms(1) obtain c where cur: "cur = JDict c" by (cases cur) auto
  obtain a1 where a1: "robotic_anomaly cur = Some a1"
    using robotic_anomaly_dict[of c] cur by blast
  have "fingerprint_anomaly cur prof = Some [''browser_fingerprint_mismatch'']"
    using assms(2,3) by (simp add: fingerprint_anomaly_def cur verify_browser_fingerprint_empty)
  with a1 have "detect_web_anomalies cur prof = a1 @ [''browser_fingerprint_mismatch'']"
    by (simp add: detect_web_anomalies_def)
  with assms(3) show ?thesis by (simp add: verify_browser_fingerprint_empty)
qed

theorem empty_fingerprint_always_flagged_witness:
  "is_dict (JDict [(''browser_info'', JDict [(''userAgent'', JStr ''Firefox'')])])
   \<and> dict_get (JDict [(''browser_fingerprint'', JDict [])]) ''browser_fingerprint'' (JDict [])
       = Some (JDict [])
   \<and> py_len (JDict []) = Some 0
   \<and> verify_browser_fingerprint (JDict [(''userAgent'', JStr ''Firefox'')]) (JDict []) = 0
   \<and> detect_web_anomalies (JDict [(''browser_info'', JDict [(''userAgent'', JStr ''Firefox'')])])
        (JDict [(''browser_fingerprint'', JDict [])]) = [''browser_fingerprint_mismatch'']"
proof -
  let ?cur = "JDict [(''browser_info'', JDict [(''userAgent'', JStr ''Firefox'')])]"
  let ?prof = "JDict [(''browser_fingerprint'', JDict [])]"
  have h1: "is_dict ?cur" by simp
  have h2: "dict_get ?prof ''browser_fingerprint'' (JDict []) = Some (JDict [])" by simp
  have h3: "py_len (JDict []) = Some 0" by simp
  have d: "detect_web_anomalies ?cur ?prof = [''browser_fingerprint_mismatch'']"
    by (simp add: web_defs)
  from empty_fingerprint_always_flagged[OF h1 h2 h3, of "JDict [(''userAgent'', JStr ''Firefox'')]"]
    h1 h2 h3 d show ?thesis by simp
qed

lemma nonzero_num_truthy: "num_of sp = Some v \<Longrightarrow> v \<noteq> 0 \<Longrightarrow> truthy sp"
  by (cases sp) (auto split: if_splits)

lemma mean_std_single:
  assumes "num_of sp = Some v"
  shows "\<exists>m. mean_std a s (JList [sp]) = Some [(a, m), (s, JInt 0)]"
  using assms by (cases sp) (auto simp: mean_std_def)

lemma single_event_features:
  assumes "dict_get ev ''speed'' JNull = Some sp" and "num_of sp = Some v" and "v \<noteq> 0"
  shows "\<exists>m. extract_mouse_features (JList [ev])
              = [(''avg_mouse_speed'', m), (''mouse_speed_std'', JInt 0)]"
proof -
  from assms(1) obtain d where ev: "ev = JDict d" by (cases ev) auto
  have t: "truthy sp" using assms(2,3) by (rule nonzero_num_truthy)
  have g: "dict_get ev ''speed'' (JInt 0) = Some sp"
    using assms(1) t by (auto simp: ev split: option.splits)
  obtain m where m: "mean_std ''avg_mouse_speed'' ''mouse_speed_std'' (JList [sp])
      = Some [(''avg_mouse_speed'', m), (''mouse_speed_std'', JInt 0)]"
    using mean_std_single[OF assms(2)] by blast
  have s: "mouse_speed_part (JList [ev])
      = Some [(''avg_mouse_speed'', m), (''mouse_speed_std'', JInt 0)]"
    using assms(1) t g m by (simp add: mouse_speed_part_def)
  have "mouse_angle_part (JList [ev]) = Some []"
    by (simp add: mouse_angle_part_def)
  with s show ?thesis
    by (simp add: extract_mouse_features_def extract_mouse_features_try_def)
qed

text \<open>
  Claim C10. A list of mouse movements with exactly one event, whose speed is a number
  other than zero: the feature \<^verbatim>\<open>mouse_speed_std\<close> is 0, which is below 0.1, and
  \<^verbatim>\<open>_detect_web_anomalies\<close> reports \<^verbatim>\<open>robotic_mouse_movements\<close> for every profile.
\<close>

theorem single_mouse_event_is_robotic:
  assumes "dict_get cur ''mouse_movements'' (JList []) = Some (JList [ev])"
    and "dict_get ev ''speed'' JNull = Some sp" and "num_of sp = Some v" and "v \<noteq> 0"
  shows "map_of (extract_mouse_features (JList [ev])) ''mouse_speed_std'' = Some (JInt 0)
       \<and> ''robotic_mouse_movements'' \<in> set (detect_web_anomalies cur prof)"
proof -
  obtain m where f: "extract_mouse_features (JList [ev])
      = [(''avg_mouse_speed'', m), (''mouse_speed_std'', JInt 0)]"
    using single_event_features[OF assms(2,3,4)] by blast
  have r: "robotic_anomaly cur = Some [''robotic_mouse_movements'']"
    using assms(1) by (simp add: robotic_anomaly_def f)
  then have "''robotic_mouse_movements'' \<in> set (detect_web_anomalies cur prof)"
    by (cases "fingerprint_anomaly cur prof") (simp_all add: detect_web_anomalies_def)
  with f show ?thesis by simp
qed

theorem single_mouse_event_is_robotic_witness:
  "dict_get (JDict [(''mouse_movements'', JList [JDict [(''speed'', JFloat 3.5), (''x'', JInt 1)]])])
      ''mouse_movements'' (JList []) = Some (JList [JDict [(''speed'', JFloat 3.5), (''x'', JInt 1)]])
   \<and> dict_get (JDict [(''speed'', JFloat 3.5), (''x'', JInt 1)]) ''speed'' JNull
       = Some (JFloat 3.5)
   \<and> num_of (JFloat 3.5) = Some 3.5 \<and> (3.5 :: real) \<noteq> 0
   \<and> map_of (extract_mouse_features (JList [JDict [(''speed'', JFloat 3.5), (''x'', JInt 1)]]))
        ''mouse_speed_std'' = Some (JInt 0)
   \<and> ''robotic_mouse_movements'' \<in> set (detect_web_anomalies
        (JDict [(''mouse_movements'', JList [JDict [(''speed'', JFloat 3.5), (''x'', JInt 1)]])])
        (JDict [(''browser_fingerprint'', JInt 7)]))"
proof -
  let ?ev = "JDict [(''speed'', JFloat 3.5), (''x'', JInt 1)]"
  let ?cur = "JDict [(''mouse_movements'', JList [?ev])]"
  have h1: "dict_get ?cur ''mouse_movements'' (JList []) = Some (JList [?ev])" by simp
  have h2: "dict_get ?ev ''speed'' JNull = Some (JFloat 3.5)" by simp
  have h3: "num_of (JFloat 3.5) = Some 3.5" by simp
  have h4: "(3.5 :: real) \<noteq> 0" by simp
  from single_mouse_event_is_robotic[OF h1 h2 h3 h4, of "JDict [(''browser_fingerprint'', JInt 7)]"]
    h1 h2 show ?thesis by simp
qed

section \<open>The profile updater\<close>

subsection \<open>Equality of values with a hash\<close>




subsection \<open>Sets as lists\<close>


lemma hashable_add: "hashable x \<Longrightarrow> list_all hashable s \<Longrightarrow> list_all hashable (py_add s x)"
  by (simp add: py_add_def)








subsection \<open>The loop over the device samples\<close>





subsection \<open>The steps of the method\<close>


















section \<open>The signatures do not depend on the order of the keys\<close>

lemma canon_list_map: "canon_list xs = map canon xs"
  by (induction xs) simp_all


lemma dumps_list_map: "dumps_list e xs = map (dumps e) xs"
  by (induction xs) simp_all











subsection \<open>The operations on a value and on the value with its dicts sorted\<close>





lemma num_of_canon: "num_of (canon v) = num_of v"
  by (cases v) simp_all

lemma int_of_canon: "int_of (canon v) = int_of v"
  by (cases v) simp_all




lemma index0_canon: "index0 (canon v) = map_option canon (index0 v)"
proof (cases v)
  case (JList xs)
  then show ?thesis by (cases xs) simp_all
next
  case (JStr s)
  then show ?thesis by (cases s) simp_all
qed simp_all


lemma int_of_comp_canon: "int_of \<circ> canon = int_of"
  by (simp add: fun_eq_iff int_of_canon)

lemma num_of_comp_canon: "num_of \<circ> canon = num_of"
  by (simp add: fun_eq_iff num_of_canon)

lemma py_mean_canon: "py_mean (canon v) = py_mean v"
proof (cases v)
  case (JList xs)
  have a: "map int_of (map canon xs) = map int_of xs"
    by (simp add: int_of_comp_canon)
  have b: "map num_of (map canon xs) = map num_of xs"
    by (simp add: num_of_comp_canon)
  show ?thesis
    unfolding JList canon.simps canon_list_map py_mean.simps a b map_is_Nil_conv ..
qed simp_all

lemma nums_of_canon: "nums_of (canon v) = nums_of v"
  by (cases v) (simp_all add: canon_list_map num_of_comp_canon)

lemma mean_std_canon: "mean_std a s (canon v) = mean_std a s v"
  by (simp add: mean_std_def py_mean_canon nums_of_canon)

lemma mean_std_map_canon: "mean_std a s (JList (map canon xs)) = mean_std a s (JList xs)"
  using mean_std_canon[of a s "JList xs"] by (simp add: canon_list_map)

subsection \<open>The extractors on a value and on the value with its dicts sorted\<close>













lemma speed_stats_canon:
  "(if map canon speeds \<noteq> [] then mean_std a s (JList (map canon speeds)) else Some [])
   = (if speeds \<noteq> [] then mean_std a s (JList speeds) else Some [])"
  by (simp add: mean_std_map_canon)

































end
